theory Spec2Isabelle
  imports
    Complex_Main
    "HOL-Library.Char_ord"
    "HOL-Library.List_Lexorder"
    "HOL-Library.Sublist"
    "HOL-Library.Multiset"
    "HOL-Library.AList"
begin

section \<open>Data model\<close>

text \<open>
  Strings are byte strings: a Python \<open>str\<close> is modelled by its UTF-8 encoding, so the
  lexicographic order on \<^typ>\<open>string\<close> (bytewise, from \<open>Char_ord\<close> and \<open>List_Lexorder\<close>)
  is both Python's code point order and SQLite's BINARY collation. Amounts (SQLite
  \<open>REAL\<close>, Python \<open>float\<close>) are modelled as exact rationals: rounding of binary floating
  point, infinities and NaN are outside the model.

  A transaction is the dictionary built by \<open>get_transactions\<close>, with its six keys.
\<close>

record transaction =
  t_id :: int
  t_type :: string
  t_category :: string
  t_amount :: rat
  t_date :: string
  t_description :: string

text \<open>
  The table \<open>transactions\<close> of \<open>finance_data.db\<close>: its rows in rowid order, and the
  counter that \<open>AUTOINCREMENT\<close> keeps (the largest id ever assigned). The column
  \<open>created_at\<close> is never selected by the code and is left out; the table \<open>budget\<close> is
  never read or written.
\<close>

record store =
  rows :: "transaction list"
  sqlite_sequence :: int

definition init_db :: store where
  "init_db = \<lparr>rows = [], sqlite_sequence = 0\<rparr>"

text \<open>The exceptions that the operations of the program can raise.\<close>

datatype py_error = ZeroDivisionError | ValueError | KeyError | OverflowError

section \<open>database.py\<close>

definition add_transaction ::
  "store \<Rightarrow> string \<Rightarrow> string \<Rightarrow> rat \<Rightarrow> string \<Rightarrow> string \<Rightarrow> store" where
  "add_transaction db type category amount date description =
     db\<lparr>rows := rows db @
            [\<lparr>t_id = sqlite_sequence db + 1, t_type = type, t_category = category,
              t_amount = amount, t_date = date, t_description = description\<rparr>],
        sqlite_sequence := sqlite_sequence db + 1\<rparr>"

text \<open>
  \<open>ORDER BY date DESC\<close>: a stable sort on the text of the date column, largest first;
  rows with equal dates stay in rowid order.
\<close>

definition order_by_date_desc :: "transaction list \<Rightarrow> transaction list" where
  "order_by_date_desc rs = rev (sort_key t_date (rev rs))"

definition get_transactions :: "store \<Rightarrow> transaction list" where
  "get_transactions db = order_by_date_desc (rows db)"

text \<open>SQL \<open>SUM\<close> is \<open>NULL\<close> over no rows; Python's \<open>x or 0\<close> replaces \<open>None\<close> and zero by 0.\<close>

definition sql_sum :: "rat list \<Rightarrow> rat option" where
  "sql_sum xs = (if xs = [] then None else Some (sum_list xs))"

definition or_zero :: "rat option \<Rightarrow> rat" where
  "or_zero v = (case v of None \<Rightarrow> 0 | Some x \<Rightarrow> if x = 0 then 0 else x)"

record summary =
  total_income :: rat
  total_expenses :: rat
  balance :: rat

definition get_summary :: "store \<Rightarrow> summary" where
  "get_summary db =
     (let total_income =
            or_zero (sql_sum (map t_amount (filter (\<lambda>r. t_type r = ''income'') (rows db))));
          total_expenses =
            or_zero (sql_sum (map t_amount (filter (\<lambda>r. t_type r = ''expense'') (rows db))))
      in \<lparr>total_income = total_income, total_expenses = total_expenses,
          balance = total_income - total_expenses\<rparr>)"

text \<open>
  The id is bound to the parameter of the \<open>DELETE\<close> statement as an SQLite \<open>INTEGER\<close>:
  a Python integer outside the signed 64-bit range raises \<open>OverflowError\<close> before the
  statement runs, and the table is left as it was.
\<close>

definition delete_transaction :: "store \<Rightarrow> int \<Rightarrow> py_error + store" where
  "delete_transaction db transaction_id =
     (if transaction_id < - (2 ^ 63) \<or> 2 ^ 63 \<le> transaction_id
      then Inl OverflowError
      else Inr (db\<lparr>rows := filter (\<lambda>r. t_id r \<noteq> transaction_id) (rows db)\<rparr>))"

section \<open>Python values used by chatbot.py\<close>

text \<open>\<open>a / b\<close> on numbers raises on a zero divisor.\<close>

definition py_truediv :: "rat \<Rightarrow> rat \<Rightarrow> py_error + rat" where
  "py_truediv a b = (if b = 0 then Inl ZeroDivisionError else Inr (a / b))"

text \<open>
  \<open>str.lower\<close>, on the UTF-8 encoding of the text. The letters A to Z are folded, and so
  are the two code points outside ASCII whose lower case has an ASCII letter in it:
  U+212A (the bytes E2 84 AA) becomes \<open>k\<close>, and U+0130 (the bytes C4 B0) becomes \<open>i\<close>
  followed by U+0307 (the bytes CC 87). Every other code point outside ASCII is kept as
  it is: its lower case has no ASCII character, so the tests \<open>pat in s\<close> of the program,
  whose patterns are ASCII, do not see the difference.
\<close>

definition lower_char :: "char \<Rightarrow> char" where
  "lower_char c =
     (if CHR ''A'' \<le> c \<and> c \<le> CHR ''Z'' then char_of (of_char c + (32::nat)) else c)"

fun lower :: "string \<Rightarrow> string" where
  "lower [] = []"
| "lower (c # cs) =
     (if c = CHR 0xE2 \<and> take 2 cs = [CHR 0x84, CHR 0xAA]
      then CHR ''k'' # lower (drop 2 cs)
      else if c = CHR 0xC4 \<and> take 1 cs = [CHR 0xB0]
      then CHR ''i'' # CHR 0xCC # CHR 0x87 # lower (drop 1 cs)
      else lower_char c # lower cs)"

text \<open>\<open>pat in s\<close> on strings is \<^const>\<open>sublist\<close>; \<open>s.startswith(p)\<close> is \<^const>\<open>prefix\<close>.\<close>

definition py_in :: "string \<Rightarrow> string \<Rightarrow> bool" where
  "py_in pat s = sublist pat s"

definition startswith :: "string \<Rightarrow> string \<Rightarrow> bool" where
  "startswith s p = prefix p s"

subsection \<open>Number formatting\<close>

definition digit_char :: "nat \<Rightarrow> char" where
  "digit_char n = ''0123456789'' ! (n mod 10)"

function str_nat :: "nat \<Rightarrow> string" where
  "str_nat n = (if n < 10 then [digit_char n] else str_nat (n div 10) @ [digit_char (n mod 10)])"
  by pat_completeness auto
termination
  by (relation "measure id") auto

declare str_nat.simps [simp del]

definition zfill :: "nat \<Rightarrow> string \<Rightarrow> string" where
  "zfill w s = replicate (w - length s) CHR ''0'' @ s"

text \<open>Rounding to the nearest integer, a tie to the even one, as the format does.\<close>

definition round_half_even :: "rat \<Rightarrow> int" where
  "round_half_even x =
     (let f = \<lfloor>x\<rfloor>; d = x - of_int f
      in if d < 1 / 2 then f else if 1 / 2 < d then f + 1 else if even f then f else f + 1)"

text \<open>
  \<open>format(x, '.pf')\<close> for \<open>p > 0\<close>: sign, integer part, point, \<open>p\<close> digits. A negative
  value keeps its sign also when it rounds to zero.
\<close>

definition format_fixed :: "nat \<Rightarrow> rat \<Rightarrow> string" where
  "format_fixed p x =
     (let m = nat (round_half_even (\<bar>x\<bar> * 10 ^ p))
      in (if x < 0 then ''-'' else []) @ str_nat (m div 10 ^ p) @ ''.'' @
         zfill p (str_nat (m mod 10 ^ p)))"

abbreviation fmt2 :: "rat \<Rightarrow> string" where
  "fmt2 \<equiv> format_fixed 2"

abbreviation fmt1 :: "rat \<Rightarrow> string" where
  "fmt1 \<equiv> format_fixed 1"

subsection \<open>The clock\<close>

text \<open>
  \<open>datetime.now()\<close> is a reading of the system clock, passed in as an argument. Only its
  calendar date is observed by the format strings in use. The source reads the clock
  twice in \<open>get_monthly_spending\<close> and twice in \<open>get_spending_trends\<close>; the model
  passes one reading for both, so a change of date between the two reads is outside the
  model.
\<close>

record datetime =
  year :: nat
  month :: nat
  day :: nat

definition is_leap :: "nat \<Rightarrow> bool" where
  "is_leap y = (y mod 4 = 0 \<and> (y mod 100 \<noteq> 0 \<or> y mod 400 = 0))"

definition days_in_month :: "nat \<Rightarrow> nat \<Rightarrow> nat" where
  "days_in_month y m =
     (if m = 2 then (if is_leap y then 29 else 28)
      else if m = 4 \<or> m = 6 \<or> m = 9 \<or> m = 11 then 30 else 31)"

definition prev_day :: "datetime \<Rightarrow> py_error + datetime" where
  "prev_day d =
     (if 1 < day d then Inr (d\<lparr>day := day d - 1\<rparr>)
      else if 1 < month d then
        Inr (d\<lparr>month := month d - 1, day := days_in_month (year d) (month d - 1)\<rparr>)
      else if 1 < year d then Inr (d\<lparr>year := year d - 1, month := 12, day := 31\<rparr>)
      else Inl OverflowError)"

text \<open>\<open>d - timedelta(days=n)\<close>; a date before year 1 is an \<open>OverflowError\<close>.\<close>

fun minus_days :: "nat \<Rightarrow> datetime \<Rightarrow> py_error + datetime" where
  "minus_days 0 d = Inr d"
| "minus_days (Suc n) d = (case prev_day d of Inl e \<Rightarrow> Inl e | Inr d' \<Rightarrow> minus_days n d')"

definition month_name :: "nat \<Rightarrow> string" where
  "month_name m =
     [''January'', ''February'', ''March'', ''April'', ''May'', ''June'', ''July'',
      ''August'', ''September'', ''October'', ''November'', ''December''] ! ((m - 1) mod 12)"

text \<open>\<open>strftime\<close> with the formats \<open>%Y-%m\<close>, \<open>%Y-%m-%d\<close> and \<open>%B %Y\<close>.\<close>

definition strftime_Y_m :: "datetime \<Rightarrow> string" where
  "strftime_Y_m d = zfill 4 (str_nat (year d)) @ ''-'' @ zfill 2 (str_nat (month d))"

definition strftime_Y_m_d :: "datetime \<Rightarrow> string" where
  "strftime_Y_m_d d = strftime_Y_m d @ ''-'' @ zfill 2 (str_nat (day d))"

definition strftime_B_Y :: "datetime \<Rightarrow> string" where
  "strftime_B_Y d = month_name (month d) @ '' '' @ zfill 4 (str_nat (year d))"

subsection \<open>Literals outside ASCII, in UTF-8\<close>

definition bullet :: string where
  "bullet = [CHR 0xE2, CHR 0x80, CHR 0xA2]"

definition check_mark :: string where
  "check_mark = [CHR 0xE2, CHR 0x9C, CHR 0x93]"

definition emoji_check :: string where
  "emoji_check = [CHR 0xE2, CHR 0x9C, CHR 0x85]"

definition emoji_warning :: string where
  "emoji_warning = [CHR 0xE2, CHR 0x9A, CHR 0xA0, CHR 0xEF, CHR 0xB8, CHR 0x8F]"

definition emoji_right_arrow :: string where
  "emoji_right_arrow = [CHR 0xE2, CHR 0x9E, CHR 0xA1, CHR 0xEF, CHR 0xB8, CHR 0x8F]"

definition emoji_star :: string where
  "emoji_star = [CHR 0xF0, CHR 0x9F, CHR 0x8C, CHR 0x9F]"

definition emoji_cooking :: string where
  "emoji_cooking = [CHR 0xF0, CHR 0x9F, CHR 0x8D, CHR 0xB3]"

definition emoji_arts :: string where
  "emoji_arts = [CHR 0xF0, CHR 0x9F, CHR 0x8E, CHR 0xAD]"

definition emoji_hospital :: string where
  "emoji_hospital = [CHR 0xF0, CHR 0x9F, CHR 0x8F, CHR 0xA5]"

definition emoji_bulb :: string where
  "emoji_bulb = [CHR 0xF0, CHR 0x9F, CHR 0x92, CHR 0xA1]"

definition emoji_money_bag :: string where
  "emoji_money_bag = [CHR 0xF0, CHR 0x9F, CHR 0x92, CHR 0xB0]"

definition emoji_calendar :: string where
  "emoji_calendar = [CHR 0xF0, CHR 0x9F, CHR 0x93, CHR 0x85]"

definition emoji_chart_up :: string where
  "emoji_chart_up = [CHR 0xF0, CHR 0x9F, CHR 0x93, CHR 0x88]"

definition emoji_chart_down :: string where
  "emoji_chart_down = [CHR 0xF0, CHR 0x9F, CHR 0x93, CHR 0x89]"

definition emoji_bar_chart :: string where
  "emoji_bar_chart = [CHR 0xF0, CHR 0x9F, CHR 0x93, CHR 0x8A]"

definition emoji_memo :: string where
  "emoji_memo = [CHR 0xF0, CHR 0x9F, CHR 0x93, CHR 0x9D]"

definition emoji_bus :: string where
  "emoji_bus = [CHR 0xF0, CHR 0x9F, CHR 0x9A, CHR 0x8C]"

definition emoji_shopping_bags :: string where
  "emoji_shopping_bags = [CHR 0xF0, CHR 0x9F, CHR 0x9B, CHR 0x8D, CHR 0xEF, CHR 0xB8, CHR 0x8F]"

section \<open>chatbot.py\<close>

text \<open>
  Every report takes the clock reading and the store it reads as arguments. A report
  with an operation that can raise returns \<open>py_error + string\<close>; the others return the
  string.
\<close>

definition get_monthly_spending :: "datetime \<Rightarrow> transaction list \<Rightarrow> string \<Rightarrow> string" where
  "get_monthly_spending now transactions currency_symbol =
     (let current_month = strftime_Y_m now;
          monthly_expenses =
            sum_list (map t_amount
              (filter (\<lambda>t. t_type t = ''expense'' \<and> startswith (t_date t) current_month)
                 transactions))
      in ''You spent '' @ currency_symbol @ fmt2 monthly_expenses @ '' this month ('' @
         strftime_B_Y now @ '').'')"

text \<open>The dictionary \<open>recommended_budget\<close>, in the order of its keys.\<close>

definition recommended_budget :: "rat \<Rightarrow> (string \<times> rat) list" where
  "recommended_budget income =
     [(''Food'', income * 0.15),
      (''Transport'', income * 0.10),
      (''Entertainment'', income * 0.10),
      (''Utilities'', income * 0.10),
      (''Healthcare'', income * 0.05),
      (''Shopping'', income * 0.10),
      (''Savings'', income * 0.40)]"

definition get_budget_recommendation :: "store \<Rightarrow> transaction list \<Rightarrow> string \<Rightarrow> string" where
  "get_budget_recommendation db transactions currency_symbol =
     (let income = total_income (get_summary db)
      in if income = 0
         then emoji_bulb @
           '' Add some income transactions to get personalized budget recommendations.''
         else
           let response = emoji_bar_chart @
                 '' **Recommended Monthly Budget** (based on your total income of '' @
                 currency_symbol @ fmt2 income @ ''):\<newline>\<newline>'';
               response = foldl (\<lambda>response (category, amount).
                   response @ bullet @ '' **'' @ category @ ''**: '' @ currency_symbol @
                   fmt2 amount @ ''\<newline>'')
                 response (recommended_budget income)
           in response @ ''\<newline>'' @ emoji_bulb @
              '' *Tip: Try to save at least 40% of your income for financial security.*'')"

text \<open>
  The dictionary \<open>category_totals\<close> as an association list in insertion order:
  \<open>d.get(k, 0)\<close> and \<open>d[k] = v\<close> (which keeps the position of a key already there).
  \<open>add_to_totals\<close> is the body of the loop over the transactions.
\<close>

definition dict_get :: "(string \<times> rat) list \<Rightarrow> string \<Rightarrow> rat \<Rightarrow> rat" where
  "dict_get d k dflt = (case map_of d k of None \<Rightarrow> dflt | Some v \<Rightarrow> v)"

definition add_to_totals :: "(string \<times> rat) list \<Rightarrow> transaction \<Rightarrow> (string \<times> rat) list" where
  "add_to_totals d t =
     (if t_type t = ''expense''
      then AList.update (t_category t) (dict_get d (t_category t) 0 + t_amount t) d
      else d)"

definition category_totals :: "transaction list \<Rightarrow> (string \<times> rat) list" where
  "category_totals transactions = foldl add_to_totals [] transactions"

text \<open>
  \<open>sorted(items, key=lambda x: x[1], reverse=True)\<close>: stable, largest amount first,
  equal amounts in their original order.
\<close>

definition sorted_by_amount_desc :: "(string \<times> rat) list \<Rightarrow> (string \<times> rat) list" where
  "sorted_by_amount_desc items = rev (sort_key snd (rev items))"

definition percentage_of :: "rat \<Rightarrow> rat \<Rightarrow> py_error + rat" where
  "percentage_of amount total_expenses' =
     (if total_expenses' > 0
      then (case py_truediv amount total_expenses' of Inl e \<Rightarrow> Inl e | Inr q \<Rightarrow> Inr (q * 100))
      else Inr 0)"

fun breakdown_lines :: "string \<Rightarrow> rat \<Rightarrow> (string \<times> rat) list \<Rightarrow> string \<Rightarrow> py_error + string" where
  "breakdown_lines currency_symbol total_expenses' [] response = Inr response"
| "breakdown_lines currency_symbol total_expenses' ((category, amount) # rest) response =
     (case percentage_of amount total_expenses' of
        Inl e \<Rightarrow> Inl e
      | Inr percentage \<Rightarrow>
          breakdown_lines currency_symbol total_expenses' rest
            (response @ bullet @ '' **'' @ category @ ''**: '' @ currency_symbol @
             fmt2 amount @ '' ('' @ fmt1 percentage @ ''%)\<newline>''))"

definition get_expense_breakdown :: "transaction list \<Rightarrow> string \<Rightarrow> py_error + string" where
  "get_expense_breakdown transactions currency_symbol =
     (let totals = category_totals transactions
      in if totals = []
         then Inr (emoji_memo @
           '' No expenses recorded yet. Start adding expenses to see your breakdown!'')
         else
           let total_expenses' = sum_list (map snd totals);
               response = emoji_money_bag @ '' **Your Expense Breakdown by Category**:\<newline>\<newline>''
           in case breakdown_lines currency_symbol total_expenses'
                     (sorted_by_amount_desc totals) response of
                Inl e \<Rightarrow> Inl e
              | Inr response \<Rightarrow>
                  Inr (response @ ''\<newline>**Total**: '' @ currency_symbol @ fmt2 total_expenses'))"

text \<open>
  The two windows of \<open>get_spending_trends\<close>, cut out by comparing the date column as text
  with the formatted dates 30 and 60 days before the clock reading.
\<close>

definition get_spending_trends :: "datetime \<Rightarrow> transaction list \<Rightarrow> string \<Rightarrow> py_error + string" where
  "get_spending_trends now transactions currency_symbol =
     (if transactions = []
      then Inr (emoji_bar_chart @
        '' No transactions to analyze yet. Start tracking to see your spending trends!'')
      else
        case minus_days 30 now of
          Inl e \<Rightarrow> Inl e
        | Inr d30 \<Rightarrow>
            let thirty_days_ago = strftime_Y_m_d d30;
                recent_transactions = filter (\<lambda>t. t_date t \<ge> thirty_days_ago) transactions
            in if recent_transactions = []
               then Inr (emoji_calendar @ '' No transactions in the last 30 days.'')
               else
                 let total_recent = sum_list (map t_amount
                       (filter (\<lambda>t. t_type t = ''expense'') recent_transactions));
                     avg_daily = total_recent / 30
                 in case minus_days 60 now of
                      Inl e \<Rightarrow> Inl e
                    | Inr d60 \<Rightarrow>
                        let sixty_days_ago = strftime_Y_m_d d60;
                            previous_period = filter
                              (\<lambda>t. sixty_days_ago \<le> t_date t \<and> t_date t < thirty_days_ago \<and>
                                   t_type t = ''expense'')
                              transactions;
                            response = emoji_chart_up @
                              '' **Spending Trends (Last 30 Days)**:\<newline>\<newline>'';
                            response = response @ bullet @ '' **Total spending**: '' @
                              currency_symbol @ fmt2 total_recent @ ''\<newline>'';
                            response = response @ bullet @ '' **Average daily spending**: '' @
                              currency_symbol @ fmt2 avg_daily @ ''\<newline>''
                        in if previous_period \<noteq> []
                           then
                             let prev_total = sum_list (map t_amount previous_period)
                             in case (if prev_total > 0
                                      then (case py_truediv (total_recent - prev_total) prev_total of
                                              Inl e \<Rightarrow> Inl e
                                            | Inr q \<Rightarrow> Inr (q * 100))
                                      else Inr 0) of
                                  Inl e \<Rightarrow> Inl e
                                | Inr change \<Rightarrow>
                                    let trend_emoji =
                                          (if change > 0 then emoji_chart_up
                                           else if change < 0 then emoji_chart_down
                                           else emoji_right_arrow)
                                    in Inr (response @ bullet @ '' **Trend**: '' @ trend_emoji @
                                         '' '' @ fmt1 \<bar>change\<bar> @ ''% '' @
                                         (if change > 0 then ''increase''
                                          else if change < 0 then ''decrease''
                                          else ''no change'') @
                                         '' from previous month\<newline>'')
                           else Inr response)"

text \<open>
  \<open>max(d, key=d.get)\<close>: the first key with the largest value; \<open>ValueError\<close> on an empty
  dictionary. \<open>d[k]\<close> is a \<open>KeyError\<close> on a missing key.
\<close>

fun py_max_key :: "(string \<times> rat) list \<Rightarrow> py_error + string" where
  "py_max_key [] = Inl ValueError"
| "py_max_key ((k, v) # kvs) =
     Inr (fst (foldl (\<lambda>(bk, bv) (k', v'). if bv < v' then (k', v') else (bk, bv)) (k, v) kvs))"

definition dict_item :: "(string \<times> rat) list \<Rightarrow> string \<Rightarrow> py_error + rat" where
  "dict_item d k = (case map_of d k of None \<Rightarrow> Inl KeyError | Some v \<Rightarrow> Inr v)"

definition tips :: "(string \<times> string) list" where
  "tips =
     [(''Food'', emoji_cooking @
         '' Consider meal planning and cooking at home to reduce food expenses.''),
      (''Transport'', emoji_bus @
         '' Use public transportation or carpool to save on transport costs.''),
      (''Entertainment'', emoji_arts @
         '' Look for free or low-cost entertainment options in your area.''),
      (''Shopping'', emoji_shopping_bags @
         '' Set a budget for shopping and avoid impulse purchases.''),
      (''Utilities'', emoji_bulb @
         '' Reduce energy consumption by using LED bulbs and unplugging devices.''),
      (''Healthcare'', emoji_hospital @
         '' Maintain preventive care to avoid expensive medical bills.'')]"

definition get_savings_tips :: "transaction list \<Rightarrow> string \<Rightarrow> py_error + string" where
  "get_savings_tips transactions currency_symbol =
     (let totals = category_totals transactions
      in if totals = []
         then Inr (emoji_bulb @ '' Start tracking expenses to get personalized savings tips!'')
         else
           case py_max_key totals of
             Inl e \<Rightarrow> Inl e
           | Inr highest_category \<Rightarrow>
               (case dict_item totals highest_category of
                  Inl e \<Rightarrow> Inl e
                | Inr highest_amount \<Rightarrow>
                    let response = emoji_bulb @ '' **Personalized Savings Tips**:\<newline>\<newline>'';
                        response = response @ ''Your highest spending is on **'' @
                          highest_category @ ''** ('' @ currency_symbol @ fmt2 highest_amount @
                          ''). '';
                        response = response @
                          (case map_of tips highest_category of
                             None \<Rightarrow> ''Consider reducing this expense.''
                           | Some tip \<Rightarrow> tip) @ ''\<newline>\<newline>'';
                        response = response @ ''**General Money-Saving Tips**:\<newline>'';
                        response = response @ check_mark @
                          '' Track all your expenses daily\<newline>'';
                        response = response @ check_mark @
                          '' Set monthly budget goals for each category\<newline>'';
                        response = response @ check_mark @
                          '' Build an emergency fund (3-6 months of expenses)\<newline>'';
                        response = response @ check_mark @
                          '' Review and adjust your budget regularly\<newline>'';
                        response = response @ check_mark @
                          '' Automate savings transfers\<newline>''
                    in Inr response))"

definition get_financial_insights :: "store \<Rightarrow> transaction list \<Rightarrow> string \<Rightarrow> py_error + string" where
  "get_financial_insights db transactions currency_symbol =
     (let summary = get_summary db;
          response = emoji_bar_chart @ '' **Your Financial Overview**:\<newline>\<newline>'';
          response = response @ bullet @ '' **Total Income**: '' @ currency_symbol @
            fmt2 (total_income summary) @ ''\<newline>'';
          response = response @ bullet @ '' **Total Expenses**: '' @ currency_symbol @
            fmt2 (total_expenses summary) @ ''\<newline>'';
          response = response @ bullet @ '' **Current Balance**: '' @ currency_symbol @
            fmt2 (balance summary) @ ''\<newline>\<newline>''
      in if balance summary > 0
         then
           case (if total_income summary > 0
                 then (case py_truediv (balance summary) (total_income summary) of
                         Inl e \<Rightarrow> Inl e
                       | Inr q \<Rightarrow> Inr (q * 100))
                 else Inr 0) of
             Inl e \<Rightarrow> Inl e
           | Inr savings_rate \<Rightarrow>
               let response = response @ emoji_check @ '' Great job! You'' @ [CHR 0x27] @
                     ''re saving '' @ fmt1 savings_rate @ ''% of your income. Keep it up!\<newline>''
               in if savings_rate < 20
                  then Inr (response @ emoji_bulb @
                    '' Try to increase your savings rate to at least 20% for better financial security.'')
                  else if savings_rate \<ge> 40
                  then Inr (response @ emoji_star @
                    '' Excellent savings rate! You'' @ [CHR 0x27] @
                    ''re building a strong financial foundation.'')
                  else Inr response
         else if balance summary < 0
         then Inr (response @ emoji_warning @ '' You'' @ [CHR 0x27] @
                ''re spending more than you earn. Consider:\<newline>'' @
                bullet @ '' Reviewing your expenses and cutting unnecessary costs\<newline>'' @
                bullet @ '' Finding ways to increase your income\<newline>'' @
                bullet @ '' Creating a strict budget to get back on track'')
         else Inr (response @ emoji_right_arrow @
                '' Your income and expenses are balanced. Consider saving more for emergencies.''))"

definition get_chatbot_response ::
  "store \<Rightarrow> datetime \<Rightarrow> string \<Rightarrow> transaction list \<Rightarrow> string \<Rightarrow> py_error + string" where
  "get_chatbot_response db now user_input transactions currency_symbol =
     (let user_input_lower = lower user_input
      in if py_in ''spend'' user_input_lower \<and> py_in ''month'' user_input_lower
         then Inr (get_monthly_spending now transactions currency_symbol)
         else if py_in ''total expense'' user_input_lower \<or>
                 py_in ''how much did i spend'' user_input_lower
         then Inr (''Your total expenses are '' @ currency_symbol @
                fmt2 (total_expenses (get_summary db)))
         else if py_in ''total income'' user_input_lower \<or>
                 py_in ''how much did i earn'' user_input_lower
         then Inr (''Your total income is '' @ currency_symbol @
                fmt2 (total_income (get_summary db)))
         else if py_in ''balance'' user_input_lower \<or>
                 py_in ''how much do i have'' user_input_lower
         then Inr (''Your current balance is '' @ currency_symbol @
                fmt2 (balance (get_summary db)))
         else if py_in ''budget'' user_input_lower \<or> py_in ''suggest'' user_input_lower
         then Inr (get_budget_recommendation db transactions currency_symbol)
         else if py_in ''breakdown'' user_input_lower \<or> py_in ''category'' user_input_lower
         then get_expense_breakdown transactions currency_symbol
         else if py_in ''trend'' user_input_lower \<or> py_in ''pattern'' user_input_lower
         then get_spending_trends now transactions currency_symbol
         else if py_in ''save'' user_input_lower \<or> py_in ''tip'' user_input_lower
         then get_savings_tips transactions currency_symbol
         else get_financial_insights db transactions currency_symbol)"

section \<open>Sequences of store operations\<close>

text \<open>The arguments of one call of \<open>add_transaction\<close>, and a run of such calls.\<close>

type_synonym new_transaction = "string \<times> string \<times> rat \<times> string \<times> string"

definition add_all :: "store \<Rightarrow> new_transaction list \<Rightarrow> store" where
  "add_all db xs =
     foldl (\<lambda>db (type, category, amount, date, description).
              add_transaction db type category amount date description) db xs"

definition fields :: "transaction \<Rightarrow> new_transaction" where
  "fields t = (t_type t, t_category t, t_amount t, t_date t, t_description t)"

text \<open>No id is repeated and none exceeds the counter: true of the fresh table and kept by every operation.\<close>

definition ids_fresh :: "store \<Rightarrow> bool" where
  "ids_fresh db = (distinct (map t_id (rows db)) \<and> list_all (\<lambda>r. t_id r \<le> sqlite_sequence db) (rows db))"

text \<open>The example of the specification: a salary of 1000 and a food expense of 200.\<close>

definition example_db :: store where
  "example_db =
     add_all init_db
       [(''income'', ''Salary'', 1000, ''2024-01-01'', []),
        (''expense'', ''Food'', 200, ''2024-01-05'', [])]"

section \<open>The dispatch policy of the specification\<close>

datatype intent =
  Monthly_spending | Total_expenses | Total_income | Balance | Budget_recommendation
  | Expense_breakdown | Spending_trends | Savings_tips | General_overview

text \<open>
  The dispatch policy in the words of the specification: an ordered list of keyword
  predicates on the lower-cased text, each with the report it selects; the first
  predicate that holds wins, and the general overview is the report when none holds.
\<close>

definition keyword_rules :: "((string \<Rightarrow> bool) \<times> intent) list" where
  "keyword_rules =
     [(\<lambda>s. py_in ''spend'' s \<and> py_in ''month'' s, Monthly_spending),
      (\<lambda>s. py_in ''total expense'' s \<or> py_in ''how much did i spend'' s, Total_expenses),
      (\<lambda>s. py_in ''total income'' s \<or> py_in ''how much did i earn'' s, Total_income),
      (\<lambda>s. py_in ''balance'' s \<or> py_in ''how much do i have'' s, Balance),
      (\<lambda>s. py_in ''budget'' s \<or> py_in ''suggest'' s, Budget_recommendation),
      (\<lambda>s. py_in ''breakdown'' s \<or> py_in ''category'' s, Expense_breakdown),
      (\<lambda>s. py_in ''trend'' s \<or> py_in ''pattern'' s, Spending_trends),
      (\<lambda>s. py_in ''save'' s \<or> py_in ''tip'' s, Savings_tips)]"

definition spec_dispatch :: "string \<Rightarrow> intent" where
  "spec_dispatch text =
     (case find (\<lambda>(predicate, branch). predicate (lower text)) keyword_rules of
        None \<Rightarrow> General_overview
      | Some (predicate, branch) \<Rightarrow> branch)"

text \<open>No predicate listed before the one of \<open>branch\<close> holds of the lower-cased text.\<close>

definition no_rule_before :: "intent \<Rightarrow> string \<Rightarrow> bool" where
  "no_rule_before branch text =
     list_all (\<lambda>(predicate, b). \<not> predicate (lower text))
       (takeWhile (\<lambda>(predicate, b). b \<noteq> branch) keyword_rules)"

text \<open>The report of each branch, as \<open>get_chatbot_response\<close> returns it.\<close>

definition report :: "store \<Rightarrow> datetime \<Rightarrow> transaction list \<Rightarrow> string \<Rightarrow> intent \<Rightarrow> py_error + string" where
  "report db now transactions currency_symbol branch =
     (case branch of
        Monthly_spending \<Rightarrow> Inr (get_monthly_spending now transactions currency_symbol)
      | Total_expenses \<Rightarrow>
          Inr (''Your total expenses are '' @ currency_symbol @ fmt2 (total_expenses (get_summary db)))
      | Total_income \<Rightarrow>
          Inr (''Your total income is '' @ currency_symbol @ fmt2 (total_income (get_summary db)))
      | Balance \<Rightarrow>
          Inr (''Your current balance is '' @ currency_symbol @ fmt2 (balance (get_summary db)))
      | Budget_recommendation \<Rightarrow> Inr (get_budget_recommendation db transactions currency_symbol)
      | Expense_breakdown \<Rightarrow> get_expense_breakdown transactions currency_symbol
      | Spending_trends \<Rightarrow> get_spending_trends now transactions currency_symbol
      | Savings_tips \<Rightarrow> get_savings_tips transactions currency_symbol
      | General_overview \<Rightarrow> get_financial_insights db transactions currency_symbol)"

text \<open>A clock reading for the examples: 31 March 2024.\<close>

definition example_now :: datetime where
  "example_now = \<lparr>year = 2024, month = 3, day = 31\<rparr>"

text \<open>A later clock reading: 1 April 2024.\<close>

definition example_later :: datetime where
  "example_later = \<lparr>year = 2024, month = 4, day = 1\<rparr>"

text \<open>The split of the income in the words of the specification: 15, 10, 10, 10, 5, 10 and 40 percent.\<close>

definition budget_shares :: "(string \<times> rat) list" where
  "budget_shares =
     [(''Food'', 0.15), (''Transport'', 0.10), (''Entertainment'', 0.10),
      (''Utilities'', 0.10), (''Healthcare'', 0.05), (''Shopping'', 0.10),
      (''Savings'', 0.40)]"

text \<open>
  The expenses of a transaction list and the sum of the expenses of one category, in the
  words of the specification.
\<close>

definition expenses :: "transaction list \<Rightarrow> transaction list" where
  "expenses ts = filter (\<lambda>t. t_type t = ''expense'') ts"

definition category_sum :: "transaction list \<Rightarrow> string \<Rightarrow> rat" where
  "category_sum ts c = sum_list (map t_amount (filter (\<lambda>t. t_category t = c) (expenses ts)))"

definition example_expenses :: "transaction list" where
  "example_expenses =
     [\<lparr>t_id = 1, t_type = ''expense'', t_category = ''Transport'', t_amount = 40,
       t_date = ''2024-03-02'', t_description = []\<rparr>,
      \<lparr>t_id = 2, t_type = ''expense'', t_category = ''Food'', t_amount = 60,
       t_date = ''2024-03-01'', t_description = []\<rparr>]"










section \<open>Properties of the store\<close>

text \<open>
  C3: \<open>get_summary\<close> returns as total income the sum of the amounts of the stored rows
  of type income, as total expenses the sum over the rows of type expense, and as balance
  their difference; on the empty table all three are zero.
\<close>

theorem get_summary_totals:
  "total_income (get_summary db) = sum_list (map t_amount (filter (\<lambda>r. t_type r = ''income'') (rows db)))
   \<and> total_expenses (get_summary db) = sum_list (map t_amount (filter (\<lambda>r. t_type r = ''expense'') (rows db)))
   \<and> balance (get_summary db) = total_income (get_summary db) - total_expenses (get_summary db)
   \<and> get_summary init_db = \<lparr>total_income = 0, total_expenses = 0, balance = 0\<rparr>"
  by (simp add: get_summary_def sql_sum_def or_zero_def init_db_def Let_def)

lemma set_order_by_date_desc: "set (order_by_date_desc rs) = set rs"
  by (simp add: order_by_date_desc_def)

lemma mset_order_by_date_desc: "mset (order_by_date_desc rs) = mset rs"
  by (simp add: order_by_date_desc_def)

lemma sorted_order_by_date_desc:
  "sorted_wrt (\<lambda>a b. t_date a \<ge> t_date b) (order_by_date_desc rs)"
proof -
  have "sorted (map t_date (sort_key t_date (rev rs)))"
    by (rule sorted_sort_key)
  then have "sorted_wrt (\<lambda>a b. t_date a \<le> t_date b) (sort_key t_date (rev rs))"
    by (simp add: sorted_map)
  then show ?thesis
    by (simp add: order_by_date_desc_def sorted_wrt_rev)
qed

lemma add_all_snoc:
  "add_all db (xs @ [(ty, c, a, d, ds)]) = add_transaction (add_all db xs) ty c a d ds"
  by (simp add: add_all_def)

lemma sequence_add_all: "sqlite_sequence (add_all db xs) = sqlite_sequence db + int (length xs)"
proof (induction xs rule: rev_induct)
  case Nil
  show ?case by (simp add: add_all_def)
next
  case (snoc x xs)
  obtain ty c a d ds where x: "x = (ty, c, a, d, ds)" by (cases x)
  show ?case using snoc by (simp add: x add_all_snoc add_transaction_def)
qed

lemma fields_add_all: "map fields (rows (add_all db xs)) = map fields (rows db) @ xs"
proof (induction xs rule: rev_induct)
  case Nil
  show ?case by (simp add: add_all_def)
next
  case (snoc x xs)
  obtain ty c a d ds where x: "x = (ty, c, a, d, ds)" by (cases x)
  show ?case using snoc by (simp add: x add_all_snoc add_transaction_def fields_def)
qed

lemma ids_fresh_add: "ids_fresh db \<Longrightarrow> ids_fresh (add_transaction db ty c a d ds)"
  by (fastforce simp: ids_fresh_def add_transaction_def list_all_iff)

lemma ids_fresh_add_all: "ids_fresh db \<Longrightarrow> ids_fresh (add_all db xs)"
proof (induction xs rule: rev_induct)
  case Nil
  then show ?case by (simp add: add_all_def)
next
  case (snoc x xs)
  obtain ty c a d ds where x: "x = (ty, c, a, d, ds)" by (cases x)
  show ?case using snoc by (simp add: x add_all_snoc ids_fresh_add)
qed

lemma distinct_ids_sorted: "distinct (map t_id (order_by_date_desc rs)) = distinct (map t_id rs)"
proof -
  have "mset (map t_id (order_by_date_desc rs)) = mset (map t_id rs)"
    by (simp add: mset_order_by_date_desc)
  then show ?thesis by (metis distinct_count_atmost_1 set_mset_mset)
qed

text \<open>
  C4: after any sequence of calls of \<open>add_transaction\<close> on the fresh table,
  \<open>get_transactions\<close> returns exactly the added records (the same multiset of type,
  category, amount, date and description), each with an id of its own, in descending
  order of the date column.
\<close>

theorem list_after_adds:
  "mset (map fields (get_transactions (add_all init_db xs))) = mset xs
   \<and> distinct (map t_id (get_transactions (add_all init_db xs)))
   \<and> sorted_wrt (\<lambda>a b. t_date a \<ge> t_date b) (get_transactions (add_all init_db xs))"
proof -
  have "mset (map fields (get_transactions (add_all init_db xs)))
        = mset (map fields (rows (add_all init_db xs)))"
    by (simp add: get_transactions_def mset_order_by_date_desc)
  also have "\<dots> = mset xs"
    by (simp add: fields_add_all init_db_def)
  finally have a: "mset (map fields (get_transactions (add_all init_db xs))) = mset xs" .
  have "ids_fresh init_db" by (simp add: ids_fresh_def init_db_def)
  then have "ids_fresh (add_all init_db xs)" by (rule ids_fresh_add_all)
  then have b: "distinct (map t_id (get_transactions (add_all init_db xs)))"
    by (simp add: get_transactions_def distinct_ids_sorted ids_fresh_def)
  show ?thesis using a b by (simp add: get_transactions_def sorted_order_by_date_desc)
qed

theorem list_after_adds_witness:
  "mset (map fields (get_transactions example_db))
     = {#(''income'', ''Salary'', 1000, ''2024-01-01'', []),
         (''expense'', ''Food'', 200, ''2024-01-05'', [])#}
   \<and> map t_id (get_transactions example_db) = [2, 1]"
proof -
  have "map t_id (get_transactions example_db) = [2, 1]"
    by code_simp
  then show ?thesis
    using list_after_adds
      [of "[(''income'', ''Salary'', 1000, ''2024-01-01'', []),
            (''expense'', ''Food'', 200, ''2024-01-05'', [])]"]
    by (simp add: example_db_def)
qed

text \<open>
  C5, as the specification states it, fails: the id \<open>2 ^ 63\<close> is not present in the
  example store, and deleting it raises \<open>OverflowError\<close>.
\<close>

theorem delete_absent_id_raises:
  "2 ^ 63 \<notin> t_id ` set (rows example_db)
   \<and> delete_transaction example_db (2 ^ 63) = Inl OverflowError"
proof -
  have "rows example_db =
     [\<lparr>t_id = 1, t_type = ''income'', t_category = ''Salary'', t_amount = 1000,
       t_date = ''2024-01-01'', t_description = []\<rparr>,
      \<lparr>t_id = 2, t_type = ''expense'', t_category = ''Food'', t_amount = 200,
       t_date = ''2024-01-05'', t_description = []\<rparr>]"
    by (simp add: example_db_def add_all_def add_transaction_def init_db_def)
  then show ?thesis
    by (simp add: delete_transaction_def)
qed

text \<open>
  C5, amended: for an id in the signed 64-bit range, \<open>delete_transaction\<close> returns a
  store, \<open>get_transactions\<close> on it returns no record with that id, and when no stored
  record has the id the store returned is the store as it was; for an id outside that
  range the call raises \<open>OverflowError\<close>.
\<close>

theorem delete_transaction_removes:
  "(- (2 ^ 63) \<le> i \<and> i < 2 ^ 63 \<longrightarrow>
      (\<exists>db'. delete_transaction db i = Inr db' \<and>
         (\<forall>t \<in> set (get_transactions db'). t_id t \<noteq> i) \<and>
         ((\<forall>r \<in> set (rows db). t_id r \<noteq> i) \<longrightarrow>
            db' = db \<and> get_transactions db' = get_transactions db)))
   \<and> (i < - (2 ^ 63) \<or> 2 ^ 63 \<le> i \<longrightarrow> delete_transaction db i = Inl OverflowError)"
proof (rule conjI)
  show "- (2 ^ 63) \<le> i \<and> i < 2 ^ 63 \<longrightarrow>
      (\<exists>db'. delete_transaction db i = Inr db' \<and>
         (\<forall>t \<in> set (get_transactions db'). t_id t \<noteq> i) \<and>
         ((\<forall>r \<in> set (rows db). t_id r \<noteq> i) \<longrightarrow>
            db' = db \<and> get_transactions db' = get_transactions db))"
  proof (rule impI)
    assume range: "- (2 ^ 63) \<le> i \<and> i < 2 ^ 63"
    let ?db' = "db\<lparr>rows := filter (\<lambda>r. t_id r \<noteq> i) (rows db)\<rparr>"
    have r: "delete_transaction db i = Inr ?db'"
      using range by (simp add: delete_transaction_def)
    have gone: "\<forall>t \<in> set (get_transactions ?db'). t_id t \<noteq> i"
      by (simp add: get_transactions_def set_order_by_date_desc)
    have same: "(\<forall>r \<in> set (rows db). t_id r \<noteq> i) \<longrightarrow>
            ?db' = db \<and> get_transactions ?db' = get_transactions db"
    proof (rule impI)
      assume "\<forall>r \<in> set (rows db). t_id r \<noteq> i"
      then have "filter (\<lambda>r. t_id r \<noteq> i) (rows db) = rows db"
        by simp
      then have "?db' = db"
        by simp
      then show "?db' = db \<and> get_transactions ?db' = get_transactions db"
        by (simp only: simp_thms)
    qed
    have "delete_transaction db i = Inr ?db' \<and>
         (\<forall>t \<in> set (get_transactions ?db'). t_id t \<noteq> i) \<and>
         ((\<forall>r \<in> set (rows db). t_id r \<noteq> i) \<longrightarrow>
            ?db' = db \<and> get_transactions ?db' = get_transactions db)"
      using r gone same by (intro conjI)
    then show "\<exists>db'. delete_transaction db i = Inr db' \<and>
         (\<forall>t \<in> set (get_transactions db'). t_id t \<noteq> i) \<and>
         ((\<forall>r \<in> set (rows db). t_id r \<noteq> i) \<longrightarrow>
            db' = db \<and> get_transactions db' = get_transactions db)"
      by (rule exI)
  qed
next
  show "i < - (2 ^ 63) \<or> 2 ^ 63 \<le> i \<longrightarrow> delete_transaction db i = Inl OverflowError"
    by (simp add: delete_transaction_def)
qed

theorem delete_transaction_removes_witness:
  "(\<exists>db'. delete_transaction example_db 1 = Inr db' \<and>
      1 \<notin> t_id ` set (get_transactions db'))
   \<and> delete_transaction example_db 7 = Inr example_db
   \<and> delete_transaction example_db (- (2 ^ 63) - 1) = Inl OverflowError"
proof -
  have absent: "\<forall>r \<in> set (rows example_db). t_id r \<noteq> 7"
    by code_simp
  have range1: "- (2 ^ 63) \<le> (1::int) \<and> (1::int) < 2 ^ 63"
    by simp
  have range7: "- (2 ^ 63) \<le> (7::int) \<and> (7::int) < 2 ^ 63"
    by simp
  have below: "(- (2 ^ 63) - 1 :: int) < - (2 ^ 63) \<or> 2 ^ 63 \<le> (- (2 ^ 63) - 1 :: int)"
    by simp
  obtain db1 where d1: "delete_transaction example_db 1 = Inr db1"
    and g1: "\<forall>t \<in> set (get_transactions db1). t_id t \<noteq> 1"
    using delete_transaction_removes
      [where db = example_db and i = 1, THEN conjunct1, THEN mp, OF range1]
    by blast
  have a: "\<exists>db'. delete_transaction example_db 1 = Inr db' \<and>
      1 \<notin> t_id ` set (get_transactions db')"
  proof (intro exI conjI)
    show "delete_transaction example_db 1 = Inr db1" by (rule d1)
    show "1 \<notin> t_id ` set (get_transactions db1)" using g1 by auto
  qed
  obtain db7 where d7: "delete_transaction example_db 7 = Inr db7"
    and s7: "(\<forall>r \<in> set (rows example_db). t_id r \<noteq> 7) \<longrightarrow>
               db7 = example_db \<and> get_transactions db7 = get_transactions example_db"
    using delete_transaction_removes
      [where db = example_db and i = 7, THEN conjunct1, THEN mp, OF range7]
    by blast
  have "db7 = example_db"
    using s7 absent by blast
  then have b: "delete_transaction example_db 7 = Inr example_db"
    using d7 by (simp only:)
  have c: "delete_transaction example_db (- (2 ^ 63) - 1) = Inl OverflowError"
    by (rule delete_transaction_removes
      [where db = example_db and i = "- (2 ^ 63) - 1", THEN conjunct2, THEN mp, OF below])
  show ?thesis using a b c by (intro conjI)
qed

text \<open>
  C10: a transaction whose type is neither \<open>income\<close> nor \<open>expense\<close> is stored by
  \<open>add_transaction\<close> as it is given and is returned by \<open>get_transactions\<close>, and
  \<open>get_summary\<close> is the same before and after: the record enters neither total, and the
  balance is unchanged.
\<close>

theorem other_type_stored_not_summed:
  assumes "type \<noteq> ''income''" and "type \<noteq> ''expense''"
  shows "\<lparr>t_id = sqlite_sequence db + 1, t_type = type, t_category = category,
           t_amount = amount, t_date = date, t_description = description\<rparr>
           \<in> set (get_transactions (add_transaction db type category amount date description))
         \<and> get_summary (add_transaction db type category amount date description) = get_summary db"
  using assms
  by (simp add: get_transactions_def set_order_by_date_desc add_transaction_def get_summary_def)

theorem other_type_stored_not_summed_witness:
  "\<lparr>t_id = 3, t_type = ''transfer'', t_category = ''Bank'', t_amount = 50,
     t_date = ''2024-01-07'', t_description = []\<rparr>
     \<in> set (get_transactions (add_transaction example_db ''transfer'' ''Bank'' 50 ''2024-01-07'' []))
   \<and> get_summary (add_transaction example_db ''transfer'' ''Bank'' 50 ''2024-01-07'' [])
       = \<lparr>total_income = 1000, total_expenses = 200, balance = 800\<rparr>"
proof -
  have a: "''transfer'' \<noteq> ''income''" and b: "''transfer'' \<noteq> ''expense''"
    by simp_all
  have s: "sqlite_sequence example_db + 1 = 3"
    by code_simp
  have g: "get_summary example_db = \<lparr>total_income = 1000, total_expenses = 200, balance = 800\<rparr>"
    by code_simp
  show ?thesis
    using other_type_stored_not_summed
        [OF a b, where db = example_db and category = "''Bank''" and amount = 50
           and date = "''2024-01-07''" and description = "[]"]
    by (simp add: s g)
qed


section \<open>Properties of the insight generator\<close>

lemma response_by_intent:
  "get_chatbot_response db now user_input ts cur = report db now ts cur (spec_dispatch user_input)"
  by (simp add: get_chatbot_response_def spec_dispatch_def keyword_rules_def report_def Let_def)

lemma dispatch_iff:
  "spec_dispatch user_input = branch \<longleftrightarrow>
     no_rule_before branch user_input \<and>
     (branch = General_overview \<or>
      (\<exists>predicate. (predicate, branch) \<in> set keyword_rules \<and> predicate (lower user_input)))"
  by (cases branch) (auto simp: spec_dispatch_def no_rule_before_def keyword_rules_def)

text \<open>A text with U+212A in place of the letter k reaches the breakdown report.\<close>

lemma lower_kelvin_sign:
  "lower (''BREA'' @ [CHR 0xE2, CHR 0x84, CHR 0xAA] @ ''DOWN trend'') = ''breakdown trend''
   \<and> spec_dispatch (''BREA'' @ [CHR 0xE2, CHR 0x84, CHR 0xAA] @ ''DOWN trend'') = Expense_breakdown"
  by code_simp

text \<open>
  C2: \<open>get_chatbot_response\<close> lower-cases the text and returns the report of the first
  rule of the ordered list \<open>keyword_rules\<close> whose predicate holds, the general overview
  when none holds. A branch is the selected one exactly when its own predicate holds
  (or it is the overview) and no predicate before it does.
\<close>

theorem first_match_dispatch:
  "get_chatbot_response db now user_input ts cur = report db now ts cur (spec_dispatch user_input)
   \<and> (spec_dispatch user_input = branch \<longleftrightarrow>
        no_rule_before branch user_input \<and>
        (branch = General_overview \<or>
         (\<exists>predicate. (predicate, branch) \<in> set keyword_rules \<and> predicate (lower user_input))))"
  using response_by_intent dispatch_iff by simp

theorem first_match_dispatch_witness:
  "spec_dispatch ''Suggest a BUDGET for my spending trend'' = Budget_recommendation
   \<and> get_chatbot_response example_db example_now ''Suggest a BUDGET for my spending trend'' [] ''$''
       = Inr (get_budget_recommendation example_db [] ''$'')"
proof -
  have d: "spec_dispatch ''Suggest a BUDGET for my spending trend'' = Budget_recommendation"
    by code_simp
  show ?thesis
    using first_match_dispatch
      [where db = example_db and now = example_now and ts = "[]" and cur = "''$''"
         and user_input = "''Suggest a BUDGET for my spending trend''"
         and branch = Budget_recommendation]
    by (simp add: d report_def)
qed

lemmas fmt_eval = format_fixed_def round_half_even_def str_nat.simps zfill_def digit_char_def

lemma fmt2_zero: "fmt2 0 = ''0.00''"
  by (simp add: fmt_eval)

lemma summary_example_db:
  "get_summary example_db = \<lparr>total_income = 1000, total_expenses = 200, balance = 800\<rparr>"
  by code_simp

lemma summary_init_db:
  "get_summary init_db = \<lparr>total_income = 0, total_expenses = 0, balance = 0\<rparr>"
  by code_simp

lemma insights_returns: "\<exists>m. get_financial_insights db ts cur = Inr m \<and> m \<noteq> []"
  by (simp add: get_financial_insights_def Let_def py_truediv_def emoji_bar_chart_def)

text \<open>
  C1, as the specification states it, fails: with the same text, transaction list and
  currency symbol, the answer to a question about the total expenses changes with the
  contents of the store, and the answer to a question about this month changes with the
  clock.
\<close>

theorem response_reads_store_and_clock:
  "get_chatbot_response init_db example_now ''total expense'' [] ''$''
     = Inr ''Your total expenses are $0.00''
   \<and> get_chatbot_response example_db example_now ''total expense'' [] ''$''
     = Inr ''Your total expenses are $200.00''
   \<and> get_chatbot_response init_db example_now ''spend this month'' [] ''$''
     = Inr ''You spent $0.00 this month (March 2024).''
   \<and> get_chatbot_response init_db example_later ''spend this month'' [] ''$''
     = Inr ''You spent $0.00 this month (April 2024).''"
proof -
  have d1: "spec_dispatch ''total expense'' = Total_expenses"
    by code_simp
  have d2: "spec_dispatch ''spend this month'' = Monthly_spending"
    by code_simp
  have f: "fmt2 200 = ''200.00''"
    by (simp add: fmt_eval)
  have m1: "get_monthly_spending example_now [] ''$'' = ''You spent $0.00 this month (March 2024).''"
    by code_simp
  have m2: "get_monthly_spending example_later [] ''$''
              = ''You spent $0.00 this month (April 2024).''"
    by code_simp
  show ?thesis
    by (simp add: response_by_intent report_def d1 d2 f m1 m2 fmt2_zero
        summary_example_db summary_init_db)
qed

text \<open>
  C1, amended: the response is a function of the text, the transaction list, the currency
  symbol, the summary of the store and the clock reading. Two stores with the same summary
  give the same response; the monthly, breakdown, trend and savings-tip reports do not
  read the store at all; every report but the monthly and the trend report is
  independent of the clock; and the total-expense, total-income, balance, budget and
  overview reports are computed from the summary of the store alone: they depend neither
  on the transaction list passed in nor on the clock.
\<close>

theorem response_determined_by:
  "(get_summary db = get_summary db' \<longrightarrow>
      get_chatbot_response db now user_input ts cur
        = get_chatbot_response db' now user_input ts cur)
   \<and> (spec_dispatch user_input \<in> {Monthly_spending, Expense_breakdown, Spending_trends, Savings_tips} \<longrightarrow>
      get_chatbot_response db now user_input ts cur
        = get_chatbot_response db' now user_input ts cur)
   \<and> (spec_dispatch user_input \<notin> {Monthly_spending, Spending_trends} \<longrightarrow>
      get_chatbot_response db now user_input ts cur
        = get_chatbot_response db now' user_input ts cur)
   \<and> (spec_dispatch user_input
         \<in> {Total_expenses, Total_income, Balance, Budget_recommendation, General_overview} \<and>
       get_summary db = get_summary db' \<longrightarrow>
      get_chatbot_response db now user_input ts cur
        = get_chatbot_response db' now' user_input ts' cur)"
proof (intro conjI impI)
  assume "get_summary db = get_summary db'"
  then show "get_chatbot_response db now user_input ts cur
        = get_chatbot_response db' now user_input ts cur"
    by (cases "spec_dispatch user_input")
       (simp_all add: response_by_intent report_def get_budget_recommendation_def
          get_financial_insights_def)
next
  assume "spec_dispatch user_input \<in> {Monthly_spending, Expense_breakdown, Spending_trends, Savings_tips}"
  then show "get_chatbot_response db now user_input ts cur
        = get_chatbot_response db' now user_input ts cur"
    by (auto simp: response_by_intent report_def)
next
  assume "spec_dispatch user_input \<notin> {Monthly_spending, Spending_trends}"
  then show "get_chatbot_response db now user_input ts cur
        = get_chatbot_response db now' user_input ts cur"
    by (cases "spec_dispatch user_input") (simp_all add: response_by_intent report_def)
next
  assume a: "spec_dispatch user_input
         \<in> {Total_expenses, Total_income, Balance, Budget_recommendation, General_overview} \<and>
       get_summary db = get_summary db'"
  then have s: "get_summary db = get_summary db'"
    by (rule conjunct2)
  show "get_chatbot_response db now user_input ts cur
        = get_chatbot_response db' now' user_input ts' cur"
    using a
    by (cases "spec_dispatch user_input")
       (simp_all add: response_by_intent report_def get_budget_recommendation_def
          get_financial_insights_def s)
qed


theorem response_determined_by_witness:
  "get_chatbot_response example_db example_now ''total expense'' [] ''$''
     = get_chatbot_response (add_transaction example_db ''transfer'' ''Bank'' 50 ''2024-01-07'' [])
         example_now ''total expense'' [] ''$''
   \<and> get_chatbot_response init_db example_now ''category breakdown'' [] ''$''
     = get_chatbot_response example_db example_later
         ''category breakdown'' [] ''$''
   \<and> get_chatbot_response init_db example_now ''total expense'' example_expenses ''$''
     = get_chatbot_response init_db example_later ''total expense'' [] ''$''"
proof -
  have s: "get_summary example_db
             = get_summary (add_transaction example_db ''transfer'' ''Bank'' 50 ''2024-01-07'' [])"
    by (simp add: get_summary_def add_transaction_def)
  have d: "spec_dispatch ''category breakdown'' = Expense_breakdown"
    by code_simp
  have a: "get_chatbot_response example_db example_now ''total expense'' [] ''$''
     = get_chatbot_response (add_transaction example_db ''transfer'' ''Bank'' 50 ''2024-01-07'' [])
         example_now ''total expense'' [] ''$''"
    using response_determined_by
      [where db = example_db and now = example_now and ts = "[]" and cur = "''$''"
         and user_input = "''total expense''" and now' = example_now and ts' = "[]"
         and db' = "add_transaction example_db ''transfer'' ''Bank'' 50 ''2024-01-07'' []"]
      s by simp
  have b: "get_chatbot_response init_db example_now ''category breakdown'' [] ''$''
     = get_chatbot_response example_db example_now ''category breakdown'' [] ''$''"
    using response_determined_by
      [where db = init_db and db' = example_db and user_input = "''category breakdown''"
         and now = example_now and now' = example_now and ts = "[]" and ts' = "[]"
         and cur = "''$''"]
      d by simp
  have c: "get_chatbot_response example_db example_now ''category breakdown'' [] ''$''
     = get_chatbot_response example_db example_later
         ''category breakdown'' [] ''$''"
    using response_determined_by
      [where db = example_db and db' = example_db and user_input = "''category breakdown''"
         and now = example_now and now' = example_later and ts = "[]" and ts' = "[]"
         and cur = "''$''"]
      d by simp
  have e: "spec_dispatch ''total expense'' = Total_expenses"
    by code_simp
  have f: "get_chatbot_response init_db example_now ''total expense'' example_expenses ''$''
     = get_chatbot_response init_db example_later ''total expense'' [] ''$''"
  proof -
    have h: "spec_dispatch ''total expense''
         \<in> {Total_expenses, Total_income, Balance, Budget_recommendation, General_overview} \<and>
       get_summary init_db = get_summary init_db"
      by (simp add: e)
    show ?thesis
      by (rule response_determined_by
        [where db = init_db and db' = init_db and user_input = "''total expense''"
           and now = example_now and now' = example_later and ts = example_expenses
           and ts' = "[]" and cur = "''$''",
         THEN conjunct2, THEN conjunct2, THEN conjunct2, THEN mp, OF h])
  qed
  show ?thesis using a b c f by (simp only: simp_thms)
qed

text \<open>
  C6: when the text contains \<open>budget\<close> or \<open>suggest\<close> and no earlier predicate holds, a
  total income of zero gives the prompt to add income, and a positive total income \<open>I\<close>
  gives the recommendation with one line per category, of the amount \<open>share * I\<close> for the
  shares 0.15, 0.10, 0.10, 0.10, 0.05, 0.10 and 0.40, which add up to 1. Both are
  results, not errors. The total income is the one of the summary of the store.
\<close>

theorem budget_recommendation:
  assumes "py_in ''budget'' (lower user_input) \<or> py_in ''suggest'' (lower user_input)"
    and "no_rule_before Budget_recommendation user_input"
  shows "(total_income (get_summary db) = 0 \<longrightarrow>
            get_chatbot_response db now user_input ts cur =
              Inr (emoji_bulb @
                '' Add some income transactions to get personalized budget recommendations.''))
         \<and> (0 < total_income (get_summary db) \<longrightarrow>
            get_chatbot_response db now user_input ts cur =
              Inr (emoji_bar_chart @
                '' **Recommended Monthly Budget** (based on your total income of '' @
                cur @ fmt2 (total_income (get_summary db)) @ ''):\<newline>\<newline>'' @
                concat (map (\<lambda>(category, share).
                    bullet @ '' **'' @ category @ ''**: '' @ cur @
                    fmt2 (share * total_income (get_summary db)) @ ''\<newline>'')
                  budget_shares) @
                ''\<newline>'' @ emoji_bulb @
                '' *Tip: Try to save at least 40% of your income for financial security.*''))
         \<and> sum_list (map snd budget_shares) = 1"
proof -
  have d: "spec_dispatch user_input = Budget_recommendation"
    using assms by (auto simp: dispatch_iff keyword_rules_def)
  show ?thesis
    by (simp add: response_by_intent d report_def get_budget_recommendation_def
        recommended_budget_def budget_shares_def Let_def mult.commute)
qed


theorem budget_recommendation_witness:
  "get_chatbot_response init_db example_now ''Suggest a budget'' [] ''$''
     = Inr (emoji_bulb @
         '' Add some income transactions to get personalized budget recommendations.'')
   \<and> get_chatbot_response example_db example_now ''Suggest a budget'' [] ''$''
     = Inr (emoji_bar_chart @
         '' **Recommended Monthly Budget** (based on your total income of $1000.00):\<newline>\<newline>'' @
         bullet @ '' **Food**: $150.00\<newline>'' @
         bullet @ '' **Transport**: $100.00\<newline>'' @
         bullet @ '' **Entertainment**: $100.00\<newline>'' @
         bullet @ '' **Utilities**: $100.00\<newline>'' @
         bullet @ '' **Healthcare**: $50.00\<newline>'' @
         bullet @ '' **Shopping**: $100.00\<newline>'' @
         bullet @ '' **Savings**: $400.00\<newline>'' @
         ''\<newline>'' @ emoji_bulb @
         '' *Tip: Try to save at least 40% of your income for financial security.*'')"
proof -
  have k: "py_in ''budget'' (lower ''Suggest a budget'') \<or> py_in ''suggest'' (lower ''Suggest a budget'')"
    by code_simp
  have n: "no_rule_before Budget_recommendation ''Suggest a budget''"
    by code_simp
  have i0: "total_income (get_summary init_db) = 0"
    by code_simp
  have i1: "total_income (get_summary example_db) = 1000"
    by code_simp
  have f: "fmt2 1000 = ''1000.00''" "fmt2 150 = ''150.00''" "fmt2 100 = ''100.00''"
    "fmt2 50 = ''50.00''" "fmt2 400 = ''400.00''"
    by (simp_all add: fmt_eval)
  have a: "get_chatbot_response init_db example_now ''Suggest a budget'' [] ''$''
     = Inr (emoji_bulb @
         '' Add some income transactions to get personalized budget recommendations.'')"
    using budget_recommendation [OF k n, where db = init_db] i0 by blast
  have b: "get_chatbot_response example_db example_now ''Suggest a budget'' [] ''$''
     = Inr (emoji_bar_chart @
         '' **Recommended Monthly Budget** (based on your total income of $1000.00):\<newline>\<newline>'' @
         bullet @ '' **Food**: $150.00\<newline>'' @
         bullet @ '' **Transport**: $100.00\<newline>'' @
         bullet @ '' **Entertainment**: $100.00\<newline>'' @
         bullet @ '' **Utilities**: $100.00\<newline>'' @
         bullet @ '' **Healthcare**: $50.00\<newline>'' @
         bullet @ '' **Shopping**: $100.00\<newline>'' @
         bullet @ '' **Savings**: $400.00\<newline>'' @
         ''\<newline>'' @ emoji_bulb @
         '' *Tip: Try to save at least 40% of your income for financial security.*'')"
    using budget_recommendation
      [OF k n, where db = example_db and now = example_now and ts = "[]" and cur = "''$''"]
    by (simp add: i1 budget_shares_def f)
  show ?thesis using a b by simp
qed

text \<open>
  C9: with an empty transaction list the response is, for every text, store and clock
  reading, a message (a non-empty string) and not an error; and when the text contains
  \<open>spend\<close> and \<open>month\<close> and no transaction is dated in the current month, the response
  is the message with the amount 0.00.
\<close>

theorem empty_transactions_message:
  "(\<exists>m. get_chatbot_response db now user_input [] cur = Inr m \<and> m \<noteq> [])
   \<and> (py_in ''spend'' (lower user_input) \<and> py_in ''month'' (lower user_input) \<and>
       (\<forall>t \<in> set ts. \<not> startswith (t_date t) (strftime_Y_m now)) \<longrightarrow>
       get_chatbot_response db now user_input ts cur =
         Inr (''You spent '' @ cur @ ''0.00 this month ('' @ strftime_B_Y now @ '').''))"
proof -
  have a: "\<exists>m. get_chatbot_response db now user_input [] cur = Inr m \<and> m \<noteq> []"
    using insights_returns [of db "[]" cur]
    by (cases "spec_dispatch user_input")
       (simp_all add: response_by_intent report_def get_monthly_spending_def
          get_budget_recommendation_def get_expense_breakdown_def get_spending_trends_def
          get_savings_tips_def category_totals_def add_to_totals_def Let_def emoji_bulb_def emoji_memo_def
          emoji_bar_chart_def)
  have b: "get_chatbot_response db now user_input ts cur =
         Inr (''You spent '' @ cur @ ''0.00 this month ('' @ strftime_B_Y now @ '').'')"
    if "py_in ''spend'' (lower user_input)" "py_in ''month'' (lower user_input)"
       "\<forall>t \<in> set ts. \<not> startswith (t_date t) (strftime_Y_m now)"
  proof -
    have "filter (\<lambda>t. t_type t = ''expense'' \<and> startswith (t_date t) (strftime_Y_m now)) ts = []"
      using that(3) by (simp add: filter_empty_conv)
    then show ?thesis
      using that(1,2)
      by (simp add: get_chatbot_response_def get_monthly_spending_def Let_def fmt2_zero)
  qed
  show ?thesis using a b by blast
qed


theorem empty_transactions_message_witness:
  "get_chatbot_response init_db example_now ''How much did I spend this month?''
     [\<lparr>t_id = 1, t_type = ''expense'', t_category = ''Food'', t_amount = 50,
       t_date = ''2024-02-15'', t_description = []\<rparr>] ''$''
     = Inr ''You spent $0.00 this month (March 2024).''"
proof -
  have k: "py_in ''spend'' (lower ''How much did I spend this month?'')"
      "py_in ''month'' (lower ''How much did I spend this month?'')"
    by code_simp+
  have h: "\<forall>t \<in> set [\<lparr>t_id = 1, t_type = ''expense'', t_category = ''Food'', t_amount = 50,
       t_date = ''2024-02-15'', t_description = []\<rparr>]. \<not> startswith (t_date t) (strftime_Y_m example_now)"
    by code_simp
  have l: "strftime_B_Y example_now = ''March 2024''"
    by code_simp
  show ?thesis
    using empty_transactions_message
      [where db = init_db and now = example_now and cur = "''$''"
         and user_input = "''How much did I spend this month?''"
         and ts = "[\<lparr>t_id = 1, t_type = ''expense'', t_category = ''Food'', t_amount = 50,
       t_date = ''2024-02-15'', t_description = []\<rparr>]"]
      k h
    by (simp add: l)
qed

lemma sum_snd_update:
  "sum_list (map snd (AList.update k v d)) = sum_list (map snd d) - dict_get d k 0 + v"
  by (induction d) (auto simp: dict_get_def)

lemma dict_get_update:
  "dict_get (AList.update k v d) c 0 = (if c = k then v else dict_get d c 0)"
  by (simp add: dict_get_def update_conv')

lemma step_distinct:
  "distinct (map fst d) \<Longrightarrow> distinct (map fst (add_to_totals d t))"
  by (simp add: add_to_totals_def distinct_update)

lemma step_keys:
  "fst ` set (add_to_totals d t) = fst ` set d \<union> t_category ` set (expenses [t])"
  by (auto simp: add_to_totals_def dom_update expenses_def)

lemma step_value:
  "dict_get (add_to_totals d t) c 0 = dict_get d c 0 + category_sum [t] c"
  by (simp add: add_to_totals_def dict_get_update category_sum_def expenses_def)

lemma step_sum:
  "sum_list (map snd (add_to_totals d t))
     = sum_list (map snd d) + sum_list (map t_amount (expenses [t]))"
  by (simp add: add_to_totals_def sum_snd_update expenses_def)

lemma expenses_Cons: "expenses (t # ts) = expenses [t] @ expenses ts"
  by (simp add: expenses_def)

lemma category_sum_Cons: "category_sum (t # ts) c = category_sum [t] c + category_sum ts c"
  by (simp add: category_sum_def expenses_def)

lemma totals_distinct:
  "distinct (map fst d) \<Longrightarrow> distinct (map fst (foldl add_to_totals d ts))"
  by (induction ts arbitrary: d) (simp_all add: step_distinct)

lemma totals_keys:
  "fst ` set (foldl add_to_totals d ts) = fst ` set d \<union> t_category ` set (expenses ts)"
proof (induction ts arbitrary: d)
  case Nil
  show ?case by (simp add: expenses_def)
next
  case (Cons t ts)
  have "fst ` set (foldl add_to_totals d (t # ts))
          = fst ` set (add_to_totals d t) \<union> t_category ` set (expenses ts)"
    by (simp add: Cons)
  also have "\<dots> = fst ` set d \<union> t_category ` set (expenses (t # ts))"
    unfolding step_keys expenses_Cons [of t ts] by auto
  finally show ?case .
qed

lemma totals_value:
  "dict_get (foldl add_to_totals d ts) c 0 = dict_get d c 0 + category_sum ts c"
proof (induction ts arbitrary: d)
  case Nil
  show ?case by (simp add: category_sum_def expenses_def)
next
  case (Cons t ts)
  show ?case
    by (simp add: Cons step_value category_sum_Cons [of t ts])
qed

lemma totals_sum:
  "sum_list (map snd (foldl add_to_totals d ts))
     = sum_list (map snd d) + sum_list (map t_amount (expenses ts))"
proof (induction ts arbitrary: d)
  case Nil
  show ?case by (simp add: expenses_def)
next
  case (Cons t ts)
  show ?case
    by (simp add: Cons step_sum expenses_Cons [of t ts])
qed

lemma category_totals_amount:
  assumes "(c, a) \<in> set (category_totals ts)"
  shows "a = category_sum ts c"
proof -
  have "distinct (map fst (category_totals ts))"
    by (simp add: category_totals_def totals_distinct)
  then have "map_of (category_totals ts) c = Some a"
    using assms by simp
  then have "dict_get (category_totals ts) c 0 = a"
    by (simp add: dict_get_def)
  moreover have "dict_get (category_totals ts) c 0 = dict_get [] c 0 + category_sum ts c"
    unfolding category_totals_def by (rule totals_value)
  moreover have "dict_get [] c 0 = 0"
    by (simp add: dict_get_def)
  ultimately show ?thesis by simp
qed

lemma category_totals_empty: "category_totals ts = [] \<longleftrightarrow> expenses ts = []"
proof -
  have "fst ` set (category_totals ts) = t_category ` set (expenses ts)"
    by (simp add: category_totals_def totals_keys)
  then show ?thesis by (metis image_is_empty set_empty)
qed

lemma mset_sorted_by_amount_desc: "mset (sorted_by_amount_desc items) = mset items"
  by (simp add: sorted_by_amount_desc_def)

lemma set_sorted_by_amount_desc: "set (sorted_by_amount_desc items) = set items"
  by (simp add: sorted_by_amount_desc_def)

lemma distinct_sorted_by_amount_desc:
  "distinct (map fst (sorted_by_amount_desc items)) = distinct (map fst items)"
proof -
  have "mset (map fst (sorted_by_amount_desc items)) = mset (map fst items)"
    by (simp add: mset_sorted_by_amount_desc)
  then show ?thesis by (metis distinct_count_atmost_1 set_mset_mset)
qed

lemma descending_sorted_by_amount_desc:
  "sorted_wrt (\<lambda>x y. snd x \<ge> snd y) (sorted_by_amount_desc items)"
proof -
  have "sorted (map snd (sort_key snd (rev items)))"
    by (rule sorted_sort_key)
  then have "sorted_wrt (\<lambda>x y. snd x \<le> snd y) (sort_key snd (rev items))"
    by (simp add: sorted_map)
  then show ?thesis
    by (simp add: sorted_by_amount_desc_def sorted_wrt_rev)
qed

lemma breakdown_lines_positive:
  "0 < total_expenses' \<Longrightarrow>
   breakdown_lines cur total_expenses' items response =
     Inr (response @ concat (map (\<lambda>(category, amount).
        bullet @ '' **'' @ category @ ''**: '' @ cur @ fmt2 amount @ '' ('' @
        fmt1 (amount / total_expenses' * 100) @ ''%)\<newline>'') items))"
  by (induction items arbitrary: response)
     (auto simp: percentage_of_def py_truediv_def)

lemma breakdown_lines_returns:
  "\<exists>m. breakdown_lines cur total_expenses' items response = Inr m"
  by (induction items arbitrary: response)
     (auto simp: percentage_of_def py_truediv_def)

text \<open>
  C7: when the text contains \<open>breakdown\<close> or \<open>category\<close> and no earlier predicate holds,
  the response lists the expense categories, each once, with the sum of the expenses of
  the category, in descending order of that sum; with no expense it is the message that
  none is recorded; and when the total of the expenses is positive (as it is for expenses
  with positive amounts) each line carries the amount and its share of the total in
  percent, followed by the total. The example of the specification, Food 60 and Transport
  40, is evaluated after the theorem.
\<close>

theorem expense_breakdown:
  assumes "py_in ''breakdown'' (lower user_input) \<or> py_in ''category'' (lower user_input)"
    and "no_rule_before Expense_breakdown user_input"
  shows "distinct (map fst (sorted_by_amount_desc (category_totals ts)))
         \<and> fst ` set (sorted_by_amount_desc (category_totals ts)) = t_category ` set (expenses ts)
         \<and> (\<forall>(category, amount) \<in> set (sorted_by_amount_desc (category_totals ts)).
               amount = category_sum ts category)
         \<and> sorted_wrt (\<lambda>x y. snd x \<ge> snd y) (sorted_by_amount_desc (category_totals ts))
         \<and> (expenses ts = [] \<longrightarrow>
               get_chatbot_response db now user_input ts cur =
                 Inr (emoji_memo @
                   '' No expenses recorded yet. Start adding expenses to see your breakdown!''))
         \<and> (0 < sum_list (map t_amount (expenses ts)) \<longrightarrow>
               get_chatbot_response db now user_input ts cur =
                 Inr (emoji_money_bag @ '' **Your Expense Breakdown by Category**:\<newline>\<newline>'' @
                   concat (map (\<lambda>(category, amount).
                       bullet @ '' **'' @ category @ ''**: '' @ cur @ fmt2 amount @ '' ('' @
                       fmt1 (amount / sum_list (map t_amount (expenses ts)) * 100) @ ''%)\<newline>'')
                     (sorted_by_amount_desc (category_totals ts))) @
                   ''\<newline>**Total**: '' @ cur @ fmt2 (sum_list (map t_amount (expenses ts)))))"
proof -
  have d: "spec_dispatch user_input = Expense_breakdown"
    using assms by (auto simp: dispatch_iff keyword_rules_def)
  have r: "get_chatbot_response db now user_input ts cur = get_expense_breakdown ts cur"
    by (simp add: response_by_intent d report_def)
  have total: "sum_list (map snd (category_totals ts)) = sum_list (map t_amount (expenses ts))"
    by (simp add: category_totals_def totals_sum)
  have p1: "distinct (map fst (sorted_by_amount_desc (category_totals ts)))"
    by (simp add: distinct_sorted_by_amount_desc category_totals_def totals_distinct)
  have p2: "fst ` set (sorted_by_amount_desc (category_totals ts)) = t_category ` set (expenses ts)"
    by (simp add: set_sorted_by_amount_desc category_totals_def totals_keys)
  have p3: "\<forall>(category, amount) \<in> set (sorted_by_amount_desc (category_totals ts)).
               amount = category_sum ts category"
    using category_totals_amount by (auto simp: set_sorted_by_amount_desc)
  have p4: "sorted_wrt (\<lambda>x y. snd x \<ge> snd y) (sorted_by_amount_desc (category_totals ts))"
    by (rule descending_sorted_by_amount_desc)
  have p5: "get_chatbot_response db now user_input ts cur =
                 Inr (emoji_memo @
                   '' No expenses recorded yet. Start adding expenses to see your breakdown!'')"
    if "expenses ts = []"
    using that by (simp add: r get_expense_breakdown_def category_totals_empty)
  have p6: "get_chatbot_response db now user_input ts cur =
                 Inr (emoji_money_bag @ '' **Your Expense Breakdown by Category**:\<newline>\<newline>'' @
                   concat (map (\<lambda>(category, amount).
                       bullet @ '' **'' @ category @ ''**: '' @ cur @ fmt2 amount @ '' ('' @
                       fmt1 (amount / sum_list (map t_amount (expenses ts)) * 100) @ ''%)\<newline>'')
                     (sorted_by_amount_desc (category_totals ts))) @
                   ''\<newline>**Total**: '' @ cur @ fmt2 (sum_list (map t_amount (expenses ts))))"
    if pos: "0 < sum_list (map t_amount (expenses ts))"
  proof -
    have "expenses ts \<noteq> []" using pos by auto
    then have ne: "category_totals ts \<noteq> []" by (simp add: category_totals_empty)
    show ?thesis
      using pos by (simp add: r get_expense_breakdown_def ne Let_def total breakdown_lines_positive)
  qed
  show ?thesis using p1 p2 p3 p4 p5 p6 by blast
qed

theorem expense_breakdown_witness:
  "sorted_by_amount_desc (category_totals example_expenses) = [(''Food'', 60), (''Transport'', 40)]
   \<and> get_chatbot_response init_db example_now ''Show my category breakdown'' example_expenses ''$''
     = Inr (emoji_money_bag @ '' **Your Expense Breakdown by Category**:\<newline>\<newline>'' @
         bullet @ '' **Food**: $60.00 (60.0%)\<newline>'' @
         bullet @ '' **Transport**: $40.00 (40.0%)\<newline>'' @
         ''\<newline>**Total**: $100.00'')"
proof -
  have k: "py_in ''breakdown'' (lower ''Show my category breakdown'') \<or>
           py_in ''category'' (lower ''Show my category breakdown'')"
    by code_simp
  have n: "no_rule_before Expense_breakdown ''Show my category breakdown''"
    by code_simp
  have g: "sorted_by_amount_desc (category_totals example_expenses)
             = [(''Food'', 60), (''Transport'', 40)]"
    by code_simp
  have t: "sum_list (map t_amount (expenses example_expenses)) = 100"
    by code_simp
  have f: "fmt2 60 = ''60.00''" "fmt2 40 = ''40.00''" "fmt2 100 = ''100.00''"
    "format_fixed (Suc 0) 60 = ''60.0''" "format_fixed (Suc 0) 40 = ''40.0''"
    by (simp_all add: fmt_eval)
  have "get_chatbot_response init_db example_now ''Show my category breakdown'' example_expenses ''$''
     = Inr (emoji_money_bag @ '' **Your Expense Breakdown by Category**:\<newline>\<newline>'' @
         bullet @ '' **Food**: $60.00 (60.0%)\<newline>'' @
         bullet @ '' **Transport**: $40.00 (40.0%)\<newline>'' @
         ''\<newline>**Total**: $100.00'')"
    using expense_breakdown
      [OF k n, where db = init_db and now = example_now and ts = example_expenses
         and cur = "''$''", THEN conjunct2, THEN conjunct2, THEN conjunct2, THEN conjunct2,
         THEN conjunct2]
    by (simp add: g t f)
  then show ?thesis using g by simp
qed















end
